theory Spec2Isabelle
  imports Complex_Main "HOL-Library.Sublist"
begin

section \<open>Data model of the Sonos media player platform\<close>

text \<open>
  Source: \<^verbatim>\<open>homeassistant/components/sonos/media_player.py\<close>.

  A \<^verbatim>\<open>SonosEntity\<close> is a Python object. Objects are compared by identity
  (\<^verbatim>\<open>slave not in group\<close>, \<^verbatim>\<open>entity._snapshot_group[0] == entity\<close>) and looked up by
  \<^verbatim>\<open>unique_id\<close> (\<^verbatim>\<open>_get_entity_from_soco_uid\<close>), so an entity is a reference into
  a heap of entity records, and \<^verbatim>\<open>hass.data[DATA_SONOS].entities\<close> is a list of references.
\<close>

type_synonym ref = nat
type_synonym uid = string
type_synonym snapshot = nat

text \<open>
  Exceptions the source mentions in its handlers. \<open>SoCoException\<close> stands for a
  \<^verbatim>\<open>SoCoException\<close> that is not a \<^verbatim>\<open>SoCoUPnPException\<close> (its subclass, which
  carries \<^verbatim>\<open>error_code\<close>).
\<close>

datatype exn =
    SoCoUPnPException string
  | SoCoException
  | TypeError
  | AttributeError
  | IndexError
  | ValueError
  | RequestException
  | TimeoutError

datatype 'a result = Return 'a | Raise exn

text \<open>Requests sent to a player through its \<^verbatim>\<open>soco\<close> object.\<close>

datatype command =
    Pause ref
  | Unjoin ref
  | Join ref ref
  | SnapshotRestore ref snapshot

datatype topology_event =
    Event_without_group
  | Event_with_group "string option"

text \<open>
  Everything an operation does besides writing entity fields is appended to one
  chronological trace: requests to players, \<^verbatim>\<open>_LOGGER\<close> records, calls of
  \<^verbatim>\<open>schedule_update_ha_state\<close>, \<^verbatim>\<open>topology_condition.notify_all()\<close>, jobs handed to
  \<^verbatim>\<open>hass\<close>, and the moment \<^verbatim>\<open>wait_for_groups\<close> is entered.
\<close>

datatype effect =
    Cmd command
  | Log_error string exn
  | Log_restore_warning ref exn
  | Log_timeout "ref list option list"
  | Log_debug string
  | Schedule_update ref
  | Notify_all
  | Job_unsubscribe nat
  | Job_group_event ref "topology_event option"
  | Await_groups "ref list option list"

record entity =
  unique_id :: uid
  subscriptions :: "nat list"
  receives_events :: bool
  player_volume :: "int option"
  player_muted :: "bool option"
  shuffle :: "bool option"
  name :: "string option"
  model :: "string option"
  coordinator :: "ref option"
  sonos_group :: "ref list"
  status :: "string option"
  media_duration :: "int option"
  media_position :: "rat option"
  media_position_updated_at :: "rat option"
  media_image_url :: "string option"
  media_artist :: "string option"
  media_album_name :: "string option"
  media_title :: "string option"
  night_sound :: "bool option"
  speech_enhance :: "bool option"
  source_name :: "string option"
  available :: bool
  favorites :: "(string \<times> string) list option"
  soco_snapshot :: "snapshot option"
  snapshot_group :: "ref list option"
  zgs_cache :: "string list"

record hass =
  entities :: "ref list"
  heap :: "ref \<Rightarrow> entity"
  trace :: "effect list"

text \<open>
  A player answers a request with success or with an exception; the answer may depend on
  everything that happened before.
\<close>

type_synonym device = "effect list \<Rightarrow> command \<Rightarrow> exn option"

definition emit :: "effect \<Rightarrow> hass \<Rightarrow> hass" where
  "emit x s = s\<lparr>trace := trace s @ [x]\<rparr>"

definition upd :: "ref \<Rightarrow> (entity \<Rightarrow> entity) \<Rightarrow> hass \<Rightarrow> hass" where
  "upd r f s = s\<lparr>heap := (heap s)(r := f (heap s r))\<rparr>"

definition issue :: "device \<Rightarrow> command \<Rightarrow> hass \<Rightarrow> unit result \<times> hass" where
  "issue dev c s =
     (case dev (trace s) c of
        None \<Rightarrow> (Return (), emit (Cmd c) s)
      | Some e \<Rightarrow> (Raise e, emit (Cmd c) s))"

definition is_coordinator :: "hass \<Rightarrow> ref \<Rightarrow> bool" where
  "is_coordinator s r = (coordinator (heap s r) = None)"

definition get_entity_from_soco_uid :: "hass \<Rightarrow> uid \<Rightarrow> ref option" where
  "get_entity_from_soco_uid s u = find (\<lambda>r. u = unique_id (heap s r)) (entities s)"

section \<open>The decorators\<close>

definition UPNP_ERRORS_TO_IGNORE :: "string list" where
  "UPNP_ERRORS_TO_IGNORE = [''701'', ''711'', ''712'']"

text \<open>
  \<^verbatim>\<open>soco_error(errorcodes)(funct)\<close>. The wrapper returns what \<open>funct\<close> returns
  (\<open>Some v\<close>), or falls off its end (\<open>None\<close>) after one of its two \<^verbatim>\<open>except\<close>
  clauses; any other exception is not caught.
\<close>

fun soco_error_handler :: "string list option \<Rightarrow> string \<Rightarrow> exn \<Rightarrow> hass \<Rightarrow> 'a option result \<times> hass" where
  "soco_error_handler errorcodes fname (SoCoUPnPException code) s =
     (if (case errorcodes of None \<Rightarrow> False | Some cs \<Rightarrow> cs \<noteq> [] \<and> code \<in> set cs)
      then (Return None, s)
      else (Return None, emit (Log_error fname (SoCoUPnPException code)) s))"
| "soco_error_handler errorcodes fname SoCoException s =
     (Return None, emit (Log_error fname SoCoException) s)"
| "soco_error_handler errorcodes fname e s = (Raise e, s)"

definition soco_error ::
  "string list option \<Rightarrow> string \<Rightarrow> (hass \<Rightarrow> 'a result \<times> hass) \<Rightarrow> hass \<Rightarrow> 'a option result \<times> hass" where
  "soco_error errorcodes fname funct s =
     (case funct s of
        (Return v, s') \<Rightarrow> (Return (Some v), s')
      | (Raise e, s') \<Rightarrow> soco_error_handler errorcodes fname e s')"

text \<open>
  \<^verbatim>\<open>soco_coordinator(funct)\<close>: run on the entity itself when it is a coordinator,
  otherwise on its coordinator.
\<close>

definition soco_coordinator :: "(ref \<Rightarrow> hass \<Rightarrow> 'a) \<Rightarrow> ref \<Rightarrow> hass \<Rightarrow> 'a" where
  "soco_coordinator funct r s =
     (case coordinator (heap s r) of None \<Rightarrow> funct r s | Some c \<Rightarrow> funct c s)"

definition is_soco_fault :: "exn \<Rightarrow> bool" where
  "is_soco_fault e = (case e of SoCoUPnPException _ \<Rightarrow> True | SoCoException \<Rightarrow> True | _ \<Rightarrow> False)"

definition ignorable :: "string list option \<Rightarrow> exn \<Rightarrow> bool" where
  "ignorable errorcodes e =
     (case e of
        SoCoUPnPException code \<Rightarrow>
          (case errorcodes of None \<Rightarrow> False | Some cs \<Rightarrow> code \<in> set cs)
      | _ \<Rightarrow> False)"


section \<open>Playback state\<close>

datatype ha_state = STATE_PAUSED | STATE_PLAYING | STATE_OFF | STATE_IDLE

definition SOURCE_LINEIN :: string where "SOURCE_LINEIN = ''Line-in''"
definition SOURCE_TV :: string where "SOURCE_TV = ''TV''"

text \<open>The \<^verbatim>\<open>state\<close> property (decorated with \<^verbatim>\<open>soco_coordinator\<close>).\<close>

definition state_of_status :: "ref \<Rightarrow> hass \<Rightarrow> ha_state" where
  "state_of_status r s =
     (if status (heap s r) \<in> {Some ''PAUSED_PLAYBACK'', Some ''STOPPED''} then STATE_PAUSED
      else if status (heap s r) \<in> {Some ''PLAYING'', Some ''TRANSITIONING''} then STATE_PLAYING
      else if status (heap s r) = Some ''OFF'' then STATE_OFF
      else STATE_IDLE)"

definition entity_state :: "ref \<Rightarrow> hass \<Rightarrow> ha_state" where
  "entity_state = soco_coordinator state_of_status"

subsection \<open>Parsing a time span\<close>

text \<open>\<^verbatim>\<open>str.split(sep)\<close> for a one-character separator.\<close>

fun split_on :: "char \<Rightarrow> string \<Rightarrow> string list" where
  "split_on c [] = [[]]"
| "split_on c (x # xs) =
     (if x = c then [] # split_on c xs
      else (case split_on c xs of [] \<Rightarrow> [[x]] | w # ws \<Rightarrow> (x # w) # ws))"

text \<open>
  \<^verbatim>\<open>int(text)\<close> on a string of ASCII digits, which is what a player sends in
  \<^verbatim>\<open>H:MM:SS\<close>. On every other string this model raises \<^verbatim>\<open>ValueError\<close>
  (Python also accepts a sign, surrounding blanks and underscores); the theorems below
  only speak of parses that return.
\<close>

definition digit_of :: "char \<Rightarrow> nat option" where
  "digit_of c =
     (let i = length (takeWhile (\<lambda>d. d \<noteq> c) ''0123456789'')
      in if i < 10 then Some i else None)"

fun digits_value :: "nat \<Rightarrow> string \<Rightarrow> nat option" where
  "digits_value acc [] = Some acc"
| "digits_value acc (c # cs) =
     (case digit_of c of None \<Rightarrow> None | Some d \<Rightarrow> digits_value (10 * acc + d) cs)"

definition py_int :: "string \<Rightarrow> int result" where
  "py_int text =
     (if text = [] then Raise ValueError
      else (case digits_value 0 text of None \<Rightarrow> Raise ValueError | Some n \<Rightarrow> Return (int n)))"

text \<open>
  \<^verbatim>\<open>sum(60 ** x[0] * int(x[1]) for x in enumerate(reversed(parts)))\<close>, the argument
  being the reversed parts and the index of the first of them.
\<close>

fun timespan_sum :: "nat \<Rightarrow> string list \<Rightarrow> int result" where
  "timespan_sum i [] = Return 0"
| "timespan_sum i (p # ps) =
     (case py_int p of
        Raise e \<Rightarrow> Raise e
      | Return v \<Rightarrow>
          (case timespan_sum (Suc i) ps of
             Raise e \<Rightarrow> Raise e
           | Return t \<Rightarrow> Return (60 ^ i * v + t)))"

definition timespan_secs :: "string option \<Rightarrow> int option result" where
  "timespan_secs timespan =
     (case timespan of
        None \<Rightarrow> Return None
      | Some t \<Rightarrow>
          if t = [] \<or> t = ''NOT_IMPLEMENTED'' then Return None
          else (case timespan_sum 0 (rev (split_on CHR '':'' t)) of
                  Raise e \<Rightarrow> Raise e
                | Return v \<Rightarrow> Return (Some v)))"

definition radio_schemes :: "string list" where
  "radio_schemes = [''x-rincon-mp3radio:'', ''x-sonosapi-stream:'', ''x-sonosapi-radio:'',
                    ''x-sonosapi-hls:'', ''hls-radio:'']"

definition is_radio_uri :: "string \<Rightarrow> bool" where
  "is_radio_uri u = list_ex (\<lambda>p. prefix p u) radio_schemes"

subsection \<open>What a player answers during one update\<close>

record track_info =
  ti_uri :: string
  ti_duration :: "string option"
  ti_artist :: "string option"
  ti_album :: "string option"
  ti_title :: "string option"
  ti_album_art :: "string option"

text \<open>
  The radio branch derives its strings with library code that is not part of this file
  (URL quoting, XML lookup, the event's \<^verbatim>\<open>radio_show\<close>); the four \<open>radio_\<close> fields
  are the values lines 591 to 643 end with, and \<open>media_info\<close> is the outcome of
  \<^verbatim>\<open>GetMediaInfo\<close>. The two clock fields are the readings of the two \<^verbatim>\<open>utcnow()\<close>
  calls of \<^verbatim>\<open>update_media_music\<close>, in program order.
\<close>

record soco_poll =
  current_transport_state :: "string option result"
  soco_shuffle :: "bool result"
  is_playing_tv :: "bool result"
  is_playing_line_in :: "bool result"
  current_track_info :: "track_info result"
  position_rel_time :: "string option result"
  utcnow_elapsed :: rat
  utcnow_stamp :: rat
  media_info :: "unit result"
  radio_image_url :: "string option"
  radio_artist :: "string option"
  radio_title :: "string option"
  radio_source :: "string option"
  soco_volume :: "int result"
  soco_mute :: "bool result"
  soco_night_mode :: "bool option result"
  soco_dialog_mode :: "bool option result"
  speaker_info :: "(string \<times> string) result"
  sonos_favorites :: "(string result \<times> string) list result"
  subscribe :: "string \<Rightarrow> nat result"

definition update_media_linein :: "ref \<Rightarrow> string \<Rightarrow> hass \<Rightarrow> hass" where
  "update_media_linein self source =
     upd self (\<lambda>e. e\<lparr>media_duration := None, media_position := None,
                     media_position_updated_at := None, media_image_url := None,
                     media_artist := Some source, media_album_name := None,
                     media_title := None, source_name := Some source\<rparr>)"

definition update_media_radio :: "ref \<Rightarrow> soco_poll \<Rightarrow> hass \<Rightarrow> unit result \<times> hass" where
  "update_media_radio self poll s =
     (let s1 = upd self (\<lambda>e. e\<lparr>media_duration := None, media_position := None,
                                media_position_updated_at := None\<rparr>) s
      in case media_info poll of
           Raise e \<Rightarrow> (Raise e, s1)
         | Return _ \<Rightarrow>
             (Return (),
              upd self (\<lambda>e. e\<lparr>media_image_url := radio_image_url poll,
                              media_artist := radio_artist poll, media_album_name := None,
                              media_title := radio_title poll,
                              source_name := radio_source poll\<rparr>) s1))"

text \<open>
  Lines 655 to 670 of \<^verbatim>\<open>update_media_music\<close>: the three \<^verbatim>\<open>|=\<close> on
  \<^verbatim>\<open>update_media_position\<close>. Subtracting \<^verbatim>\<open>None\<close> from a \<^verbatim>\<open>datetime\<close> raises
  \<^verbatim>\<open>TypeError\<close>. Seconds are exact rationals here; Python computes the difference in
  binary floating point.
\<close>

definition position_needs_update ::
  "bool \<Rightarrow> rat option \<Rightarrow> rat option \<Rightarrow> rat option \<Rightarrow> rat \<Rightarrow> bool result" where
  "position_needs_update update_media_position rel_time position updated_at now =
     (let u1 = (update_media_position \<or> (rel_time = None \<and> position \<noteq> None));
          u2 = (u1 \<or> (rel_time \<noteq> None \<and> position = None))
      in case (rel_time, position) of
           (Some rel, Some pos) \<Rightarrow>
             (case updated_at of
                None \<Rightarrow> Raise TypeError
              | Some stamp \<Rightarrow>
                  (let time_diff = now - stamp;
                       calculated_position = pos + time_diff
                   in Return (u2 \<or> \<bar>calculated_position - rel\<bar> > 3 / 2)))
         | _ \<Rightarrow> Return u2)"

text \<open>Lines 655 to 674: the decision and the overwrite of the recorded pair.\<close>

definition update_media_position ::
  "ref \<Rightarrow> bool \<Rightarrow> rat option \<Rightarrow> rat \<Rightarrow> rat \<Rightarrow> hass \<Rightarrow> unit result \<times> hass" where
  "update_media_position self flag rel_time now_elapsed now_stamp s =
     (case position_needs_update flag rel_time (media_position (heap s self))
             (media_position_updated_at (heap s self)) now_elapsed of
        Raise e \<Rightarrow> (Raise e, s)
      | Return True \<Rightarrow>
          (Return (), upd self (\<lambda>e. e\<lparr>media_position := rel_time,
                                       media_position_updated_at := Some now_stamp\<rparr>) s)
      | Return False \<Rightarrow> (Return (), s))"

definition update_media_music ::
  "ref \<Rightarrow> bool \<Rightarrow> track_info \<Rightarrow> soco_poll \<Rightarrow> hass \<Rightarrow> unit result \<times> hass" where
  "update_media_music self flag info poll s =
     (case timespan_secs (ti_duration info) of
        Raise e \<Rightarrow> (Raise e, s)
      | Return d \<Rightarrow>
          (let s1 = upd self (\<lambda>e. e\<lparr>media_duration := d\<rparr>) s
           in case position_rel_time poll of
                Raise e \<Rightarrow> (Raise e, s1)
              | Return raw \<Rightarrow>
                  (case timespan_secs raw of
                     Raise e \<Rightarrow> (Raise e, s1)
                   | Return rel \<Rightarrow>
                       (case update_media_position self flag (map_option of_int rel)
                               (utcnow_elapsed poll) (utcnow_stamp poll) s1 of
                          (Raise e, s2) \<Rightarrow> (Raise e, s2)
                        | (Return _, s2) \<Rightarrow>
                            (Return (),
                             upd self (\<lambda>e. e\<lparr>media_image_url := ti_album_art info,
                                             media_artist := ti_artist info,
                                             media_album_name := ti_album info,
                                             media_title := ti_title info,
                                             source_name := None\<rparr>) s2)))))"

text \<open>
  The loop at the end of \<^verbatim>\<open>update_media\<close>: every registered entity whose coordinator
  has this entity's \<^verbatim>\<open>unique_id\<close> is scheduled for a state refresh.
\<close>

definition schedule_slaves :: "ref \<Rightarrow> hass \<Rightarrow> hass" where
  "schedule_slaves self s =
     fold (\<lambda>r s'. case coordinator (heap s' r) of
                     None \<Rightarrow> s'
                   | Some c \<Rightarrow>
                       if unique_id (heap s' c) = unique_id (heap s' self)
                       then emit (Schedule_update r) s' else s')
          (entities s) s"

text \<open>The part of \<^verbatim>\<open>update_media\<close> that picks the kind of media (lines 546 to 558).\<close>

definition update_media_kind ::
  "ref \<Rightarrow> string option \<Rightarrow> soco_poll \<Rightarrow> hass \<Rightarrow> unit result \<times> hass" where
  "update_media_kind self new_status poll s =
     (case is_playing_tv poll of
        Raise e \<Rightarrow> (Raise e, s)
      | Return True \<Rightarrow> (Return (), update_media_linein self SOURCE_TV s)
      | Return False \<Rightarrow>
          (case is_playing_line_in poll of
             Raise e \<Rightarrow> (Raise e, s)
           | Return True \<Rightarrow> (Return (), update_media_linein self SOURCE_LINEIN s)
           | Return False \<Rightarrow>
               (case current_track_info poll of
                  Raise e \<Rightarrow> (Raise e, s)
                | Return info \<Rightarrow>
                    if is_radio_uri (ti_uri info) then update_media_radio self poll s
                    else update_media_music self (new_status \<noteq> status (heap s self))
                           info poll s)))"

definition update_media :: "ref \<Rightarrow> soco_poll \<Rightarrow> hass \<Rightarrow> unit result \<times> hass" where
  "update_media self poll s =
     (case current_transport_state poll of
        Raise e \<Rightarrow> (Raise e, s)
      | Return new_status \<Rightarrow>
          if new_status = Some ''TRANSITIONING'' then (Return (), s)
          else (case soco_shuffle poll of
                  Raise e \<Rightarrow> (Raise e, s)
                | Return sh \<Rightarrow>
                    (case update_media_kind self new_status poll
                            (upd self (\<lambda>e. e\<lparr>shuffle := Some sh\<rparr>) s) of
                       (Raise e, s1) \<Rightarrow> (Raise e, s1)
                     | (Return _, s1) \<Rightarrow>
                         (Return (),
                          schedule_slaves self
                            (emit (Schedule_update self)
                               (upd self (\<lambda>e. e\<lparr>status := new_status\<rparr>) s1))))))"


subsection \<open>Volume, favourites, subscriptions\<close>

text \<open>\<^verbatim>\<open>update_volume\<close> called without an event: four reads, each stored as it arrives.\<close>

definition update_volume :: "ref \<Rightarrow> soco_poll \<Rightarrow> hass \<Rightarrow> unit result \<times> hass" where
  "update_volume self poll s =
     (case soco_volume poll of
        Raise e \<Rightarrow> (Raise e, s)
      | Return v \<Rightarrow>
          (let s1 = upd self (\<lambda>e. e\<lparr>player_volume := Some v\<rparr>) s
           in case soco_mute poll of
                Raise e \<Rightarrow> (Raise e, s1)
              | Return m \<Rightarrow>
                  (let s2 = upd self (\<lambda>e. e\<lparr>player_muted := Some m\<rparr>) s1
                   in case soco_night_mode poll of
                        Raise e \<Rightarrow> (Raise e, s2)
                      | Return n \<Rightarrow>
                          (let s3 = upd self (\<lambda>e. e\<lparr>night_sound := n\<rparr>) s2
                           in case soco_dialog_mode poll of
                                Raise e \<Rightarrow> (Raise e, s3)
                              | Return d \<Rightarrow>
                                  (Return (), upd self (\<lambda>e. e\<lparr>speech_enhance := d\<rparr>) s3)))))"

text \<open>
  \<^verbatim>\<open>_set_favorites\<close>: both \<^verbatim>\<open>except Exception\<close> clauses only write a debug record.
  A favourite is the outcome of \<^verbatim>\<open>fav.reference.get_uri()\<close> and its title.
\<close>

definition add_favorite :: "ref \<Rightarrow> string result \<times> string \<Rightarrow> hass \<Rightarrow> hass" where
  "add_favorite self fav s =
     (case fst fav of
        Raise e \<Rightarrow> emit (Log_debug ''Ignoring invalid favorite'') s
      | Return u \<Rightarrow>
          if u \<noteq> []
          then upd self (\<lambda>e. e\<lparr>favorites := Some ((case favorites e of None \<Rightarrow> [] | Some fs \<Rightarrow> fs) @ [(u, snd fav)])\<rparr>) s
          else s)"

definition set_favorites :: "ref \<Rightarrow> soco_poll \<Rightarrow> hass \<Rightarrow> hass" where
  "set_favorites self poll s =
     (let s1 = upd self (\<lambda>e. e\<lparr>favorites := Some []\<rparr>) s
      in case sonos_favorites poll of
           Raise e \<Rightarrow> emit (Log_debug ''Ignoring invalid favorite list'') s1
         | Return favs \<Rightarrow> fold (add_favorite self) favs s1)"

definition set_basic_information :: "ref \<Rightarrow> soco_poll \<Rightarrow> hass \<Rightarrow> unit result \<times> hass" where
  "set_basic_information self poll s =
     (case speaker_info poll of
        Raise e \<Rightarrow> (Raise e, s)
      | Return info \<Rightarrow>
          (let s1 = upd self (\<lambda>e. e\<lparr>name := Some (fst info), model := Some (snd info)\<rparr>) s
           in case soco_shuffle poll of
                Raise e \<Rightarrow> (Raise e, s1)
              | Return sh \<Rightarrow>
                  (case update_volume self poll (upd self (\<lambda>e. e\<lparr>shuffle := Some sh\<rparr>) s1) of
                     (Raise e, s2) \<Rightarrow> (Raise e, s2)
                   | (Return _, s2) \<Rightarrow> (Return (), set_favorites self poll s2))))"

section \<open>Topology store\<close>

text \<open>
  \<^verbatim>\<open>update_groups\<close> itself only marks the entity as receiving events and hands the
  coroutine \<^verbatim>\<open>_async_handle_group_event(event)\<close> to \<^verbatim>\<open>hass.add_job\<close>; an event without
  the attribute \<^verbatim>\<open>zone_player_uui_ds_in_group\<close> ends it before that.
\<close>

definition update_groups :: "ref \<Rightarrow> topology_event option \<Rightarrow> hass \<Rightarrow> hass" where
  "update_groups self event s =
     (let s1 = (if event \<noteq> None then upd self (\<lambda>e. e\<lparr>receives_events := True\<rparr>) s else s)
      in if event = Some Event_without_group then s1
         else emit (Job_group_event self event) s1)"

text \<open>
  \<^verbatim>\<open>_get_soco_group\<close>. The argument is what \<^verbatim>\<open>self.soco.group\<close> gives: an exception,
  nothing usable (\<open>None\<close>), or the coordinator's uid and the members' uids.
\<close>

definition get_soco_group ::
  "ref \<Rightarrow> (uid \<times> uid list) option result \<Rightarrow> hass \<Rightarrow> uid list result" where
  "get_soco_group self soco_group s =
     (case soco_group of
        Raise e \<Rightarrow> if e = RequestException then Return [unique_id (heap s self)] else Raise e
      | Return None \<Rightarrow> Return [unique_id (heap s self)]
      | Return (Some (coordinator_uid, members)) \<Rightarrow>
          Return ([coordinator_uid] @ filter (\<lambda>p. p \<noteq> coordinator_uid) members))"

definition async_extract_group ::
  "ref \<Rightarrow> topology_event option \<Rightarrow> (uid \<times> uid list) option result \<Rightarrow> hass \<Rightarrow> uid list result" where
  "async_extract_group self event soco_group s =
     (case event of
        None \<Rightarrow> get_soco_group self soco_group s
      | Some Event_without_group \<Rightarrow> Raise AttributeError
      | Some (Event_with_group None) \<Rightarrow> get_soco_group self soco_group s
      | Some (Event_with_group (Some g)) \<Rightarrow>
          if g \<noteq> [] then Return (split_on CHR '','' g)
          else get_soco_group self soco_group s)"

definition regroup_slave :: "ref \<Rightarrow> ref list \<Rightarrow> uid \<Rightarrow> hass \<Rightarrow> hass" where
  "regroup_slave self group_refs slave_uid s =
     (case get_entity_from_soco_uid s slave_uid of
        None \<Rightarrow> s
      | Some slave \<Rightarrow>
          emit (Schedule_update slave)
            (upd slave (\<lambda>e. e\<lparr>coordinator := Some self, sonos_group := group_refs\<rparr>) s))"

definition async_regroup :: "ref \<Rightarrow> uid list \<Rightarrow> hass \<Rightarrow> hass" where
  "async_regroup self grp s =
     (let group_refs = List.map_filter (get_entity_from_soco_uid s) grp;
          s1 = emit (Schedule_update self)
                 (upd self (\<lambda>e. e\<lparr>coordinator := None, sonos_group := group_refs\<rparr>) s)
      in fold (regroup_slave self group_refs) (tl grp) s1)"

text \<open>
  \<^verbatim>\<open>_async_handle_group_event\<close>, run under the topology lock. The value returned here
  says whether \<^verbatim>\<open>notify_all()\<close> was called (the coroutine itself returns nothing).
\<close>

definition async_handle_group_event ::
  "ref \<Rightarrow> topology_event option \<Rightarrow> (uid \<times> uid list) option result \<Rightarrow> hass \<Rightarrow> bool result \<times> hass" where
  "async_handle_group_event self event soco_group s =
     (case async_extract_group self event soco_group s of
        Raise e \<Rightarrow> (Raise e, s)
      | Return grp \<Rightarrow>
          (case grp of
             [] \<Rightarrow> (Raise IndexError, s)
           | first # _ \<Rightarrow>
               if unique_id (heap s self) = first
               then (Return True, emit Notify_all (async_regroup self grp s))
               else (Return False, s)))"

fun subscribe_all :: "ref \<Rightarrow> soco_poll \<Rightarrow> string list \<Rightarrow> hass \<Rightarrow> unit result \<times> hass" where
  "subscribe_all self poll [] s = (Return (), s)"
| "subscribe_all self poll (service # rest) s =
     (case subscribe poll service of
        Raise e \<Rightarrow> (Raise e, s)
      | Return sub \<Rightarrow>
          subscribe_all self poll rest
            (upd self (\<lambda>e. e\<lparr>subscriptions := subscriptions e @ [sub]\<rparr>) s))"

definition subscribe_to_player_events :: "ref \<Rightarrow> soco_poll \<Rightarrow> hass \<Rightarrow> unit result \<times> hass" where
  "subscribe_to_player_events self poll s =
     (let s1 = upd self (\<lambda>e. e\<lparr>receives_events := False\<rparr>) s;
          s2 = fold (\<lambda>r. update_groups r None) (entities s1) s1
      in subscribe_all self poll
           [''avTransport'', ''renderingControl'', ''zoneGroupTopology'', ''contentDirectory''] s2)"

text \<open>
  \<^verbatim>\<open>update\<close>. \<open>probe\<close> is what \<^verbatim>\<open>_check_available\<close> returned: whether the socket
  connection to the player could be opened.
\<close>

definition update :: "ref \<Rightarrow> bool \<Rightarrow> soco_poll \<Rightarrow> hass \<Rightarrow> unit result \<times> hass" where
  "update self probe poll s =
     (if available (heap s self) \<noteq> probe then
        (let s1 = upd self (\<lambda>e. e\<lparr>available := probe\<rparr>) s
         in if probe then
              (case set_basic_information self poll s1 of
                 (Raise e, s2) \<Rightarrow> (Raise e, s2)
               | (Return _, s2) \<Rightarrow> subscribe_to_player_events self poll s2)
            else
              (let s2 = fold (\<lambda>sub. emit (Job_unsubscribe sub)) (subscriptions (heap s1 self)) s1
               in (Return (),
                   upd self (\<lambda>e. e\<lparr>subscriptions := [],
                                   player_volume := None, player_muted := None,
                                   status := Some ''OFF'', coordinator := None,
                                   media_duration := None, media_position := None,
                                   media_position_updated_at := None,
                                   media_image_url := None, media_artist := None,
                                   media_album_name := None, media_title := None,
                                   source_name := None\<rparr>) s2)))
      else if probe \<and> \<not> receives_events (heap s self) then
        (case update_volume self poll (update_groups self None s) of
           (Raise e, s1) \<Rightarrow> (Raise e, s1)
         | (Return _, s1) \<Rightarrow>
             if is_coordinator s1 self then update_media self poll s1 else (Return (), s1))
      else (Return (), s))"

section \<open>Group mutation\<close>

definition media_pause :: "device \<Rightarrow> ref \<Rightarrow> hass \<Rightarrow> unit option result \<times> hass" where
  "media_pause dev self =
     soco_error (Some UPNP_ERRORS_TO_IGNORE) ''media_pause''
       (soco_coordinator (\<lambda>r. issue dev (Pause r)) self)"

definition unjoin_body :: "device \<Rightarrow> ref \<Rightarrow> hass \<Rightarrow> unit result \<times> hass" where
  "unjoin_body dev self s =
     (case issue dev (Unjoin self) s of
        (Raise e, s1) \<Rightarrow> (Raise e, s1)
      | (Return _, s1) \<Rightarrow> (Return (), upd self (\<lambda>e. e\<lparr>coordinator := None\<rparr>) s1))"

definition unjoin :: "device \<Rightarrow> ref \<Rightarrow> hass \<Rightarrow> unit option result \<times> hass" where
  "unjoin dev self = soco_error None ''unjoin'' (unjoin_body dev self)"

text \<open>The \<^verbatim>\<open>for slave in slaves\<close> loop of \<^verbatim>\<open>join\<close>, with the group built so far.\<close>

fun join_slaves :: "device \<Rightarrow> ref \<Rightarrow> ref list \<Rightarrow> ref list \<Rightarrow> hass \<Rightarrow> ref list result \<times> hass" where
  "join_slaves dev self grp [] s = (Return grp, s)"
| "join_slaves dev self grp (slave # slaves) s =
     (if unique_id (heap s slave) \<noteq> unique_id (heap s self) then
        (case issue dev (Join slave self) s of
           (Raise e, s1) \<Rightarrow> (Raise e, s1)
         | (Return _, s1) \<Rightarrow>
             join_slaves dev self (if slave \<notin> set grp then grp @ [slave] else grp) slaves
               (upd slave (\<lambda>e. e\<lparr>coordinator := Some self\<rparr>) s1))
      else join_slaves dev self grp slaves s)"

definition join_body :: "device \<Rightarrow> ref \<Rightarrow> ref list \<Rightarrow> hass \<Rightarrow> ref list result \<times> hass" where
  "join_body dev self slaves s =
     (case coordinator (heap s self) of
        Some _ \<Rightarrow>
          (case unjoin dev self s of
             (Raise e, s1) \<Rightarrow> (Raise e, s1)
           | (Return _, s1) \<Rightarrow> join_slaves dev self [self] slaves s1)
      | None \<Rightarrow> join_slaves dev self (sonos_group (heap s self)) slaves s)"

definition join :: "device \<Rightarrow> ref \<Rightarrow> ref list \<Rightarrow> hass \<Rightarrow> ref list option result \<times> hass" where
  "join dev self slaves = soco_error None ''join'' (join_body dev self slaves)"

text \<open>
  \<^verbatim>\<open>restore\<close>. With no snapshot, \<^verbatim>\<open>self._soco_snapshot.restore()\<close> is an attribute
  access on \<^verbatim>\<open>None\<close>; otherwise the snapshot is replayed on the player.
\<close>

definition clear_snapshot :: "ref \<Rightarrow> hass \<Rightarrow> hass" where
  "clear_snapshot self = upd self (\<lambda>e. e\<lparr>soco_snapshot := None, snapshot_group := None\<rparr>)"

definition restore_body :: "device \<Rightarrow> ref \<Rightarrow> hass \<Rightarrow> unit result \<times> hass" where
  "restore_body dev self s =
     (case (case soco_snapshot (heap s self) of
              None \<Rightarrow> (Raise AttributeError, s)
            | Some snap \<Rightarrow> issue dev (SnapshotRestore self snap) s) of
        (Raise e, s1) \<Rightarrow>
          if e = TypeError \<or> e = AttributeError \<or> is_soco_fault e
          then (Return (), clear_snapshot self (emit (Log_restore_warning self e) s1))
          else (Raise e, s1)
      | (Return _, s1) \<Rightarrow> (Return (), clear_snapshot self s1))"

definition restore :: "device \<Rightarrow> ref \<Rightarrow> hass \<Rightarrow> unit option result \<times> hass" where
  "restore dev self = soco_error None ''restore'' (restore_body dev self)"

section \<open>Convergence waiter\<close>

text \<open>
  \<^verbatim>\<open>_test_groups\<close>. A target group is \<open>None\<close> when it is the value a swallowed
  \<^verbatim>\<open>join\<close> returned; indexing \<^verbatim>\<open>None\<close> raises \<^verbatim>\<open>TypeError\<close>, indexing an empty
  list \<^verbatim>\<open>IndexError\<close>.
\<close>

fun test_groups :: "hass \<Rightarrow> ref list option list \<Rightarrow> bool result" where
  "test_groups s [] = Return True"
| "test_groups s (None # groups) = Raise TypeError"
| "test_groups s (Some [] # groups) = Raise IndexError"
| "test_groups s (Some (coord # slaves) # groups) =
     (case sonos_group (heap s coord) of
        [] \<Rightarrow> Raise IndexError
      | first # current_slaves \<Rightarrow>
          if coord \<noteq> first then Return False
          else if set slaves \<noteq> set current_slaves then Return False
          else test_groups s groups)"

text \<open>
  While \<^verbatim>\<open>wait_for_groups\<close> sleeps in \<^verbatim>\<open>topology_condition.wait()\<close> the lock is free
  and queued group events are handled. \<open>arrivals\<close> lists the ones handled before the
  5 second timeout fires: the handling entity, the event and what \<^verbatim>\<open>soco.group\<close> gives.
  The sleeper wakes when one of them calls \<^verbatim>\<open>notify_all()\<close> and tests again; when the
  list is used up, \<^verbatim>\<open>asyncio.TimeoutError\<close> is raised inside the \<^verbatim>\<open>try\<close>. The result
  says whether the loop ended because the test passed.
\<close>

type_synonym arrival = "ref \<times> topology_event option \<times> (uid \<times> uid list) option result"

fun condition_wait :: "ref list option list \<Rightarrow> arrival list \<Rightarrow> hass \<Rightarrow> bool result \<times> hass" where
  "condition_wait groups [] s = (Return False, s)"
| "condition_wait groups ((r, event, soco_group) # rest) s =
     (case async_handle_group_event r event soco_group s of
        (Return True, s1) \<Rightarrow>
          (case test_groups s1 groups of
             Raise e \<Rightarrow> (Raise e, s1)
           | Return True \<Rightarrow> (Return True, s1)
           | Return False \<Rightarrow> condition_wait groups rest s1)
      | (_, s1) \<Rightarrow> condition_wait groups rest s1)"

definition clear_zgs_caches :: "hass \<Rightarrow> hass" where
  "clear_zgs_caches s = fold (\<lambda>r. upd r (\<lambda>e. e\<lparr>zgs_cache := []\<rparr>)) (entities s) s"

definition wait_for_groups ::
  "ref list option list \<Rightarrow> arrival list \<Rightarrow> hass \<Rightarrow> unit result \<times> hass" where
  "wait_for_groups groups arrivals s =
     (let s0 = emit (Await_groups groups) s
      in case (case test_groups s0 groups of
                 Raise e \<Rightarrow> (Raise e, s0)
               | Return True \<Rightarrow> (Return True, s0)
               | Return False \<Rightarrow> condition_wait groups arrivals s0) of
           (Raise e, s1) \<Rightarrow> (Raise e, s1)
         | (Return True, s1) \<Rightarrow> (Return (), clear_zgs_caches s1)
         | (Return False, s1) \<Rightarrow> (Return (), clear_zgs_caches (emit (Log_timeout groups) s1)))"

definition join_multi ::
  "device \<Rightarrow> arrival list \<Rightarrow> ref \<Rightarrow> ref list \<Rightarrow> hass \<Rightarrow> unit result \<times> hass" where
  "join_multi dev arrivals master ents s =
     (case join dev master ents s of
        (Raise e, s1) \<Rightarrow> (Raise e, s1)
      | (Return grp, s1) \<Rightarrow> wait_for_groups [grp] arrivals s1)"


fun unjoin_all :: "device \<Rightarrow> ref list \<Rightarrow> hass \<Rightarrow> unit result \<times> hass" where
  "unjoin_all dev [] s = (Return (), s)"
| "unjoin_all dev (e # es) s =
     (case unjoin dev e s of
        (Raise x, s1) \<Rightarrow> (Raise x, s1)
      | (Return _, s1) \<Rightarrow> unjoin_all dev es s1)"

definition unjoin_multi :: "device \<Rightarrow> arrival list \<Rightarrow> ref list \<Rightarrow> hass \<Rightarrow> unit result \<times> hass" where
  "unjoin_multi dev arrivals ents s =
     (let coordinators = filter (is_coordinator s) ents;
          slaves = filter (\<lambda>e. \<not> is_coordinator s e) ents
      in case unjoin_all dev (slaves @ coordinators) s of
           (Raise x, s1) \<Rightarrow> (Raise x, s1)
         | (Return _, s1) \<Rightarrow> wait_for_groups (map (\<lambda>e. Some [e]) ents) arrivals s1)"

section \<open>Restoring snapshots\<close>

text \<open>
  \<^verbatim>\<open>restore_multi\<close> first collects the affected players in a Python \<^verbatim>\<open>set\<close>: the
  requested entities that hold a snapshot and, with \<^verbatim>\<open>with_group\<close>, the members of
  their snapshot groups.
\<close>

definition affected_players :: "hass \<Rightarrow> ref list \<Rightarrow> bool \<Rightarrow> ref set" where
  "affected_players s ents with_group =
     (let base = filter (\<lambda>e. soco_snapshot (heap s e) \<noteq> None) ents
      in if with_group
         then set base \<union>
              set (concat (map (\<lambda>e. case snapshot_group (heap s e) of None \<Rightarrow> [] | Some g \<Rightarrow> g) base))
         else set base)"

text \<open>
  The loops of \<^verbatim>\<open>_restore_groups\<close> and \<^verbatim>\<open>_restore_players\<close> run over that set; the
  list \<open>es\<close> is the set in the order Python iterates it. A generator expression tests
  its condition when the loop reaches the element, a list comprehension before the loop
  starts.
\<close>

fun pause_coordinators :: "device \<Rightarrow> ref list \<Rightarrow> hass \<Rightarrow> unit result \<times> hass" where
  "pause_coordinators dev [] s = (Return (), s)"
| "pause_coordinators dev (e # es) s =
     (if is_coordinator s e then
        (if entity_state e s = STATE_PLAYING then
           (case media_pause dev e s of
              (Raise x, s1) \<Rightarrow> (Raise x, s1)
            | (Return _, s1) \<Rightarrow> pause_coordinators dev es s1)
         else pause_coordinators dev es s)
      else pause_coordinators dev es s)"

fun unjoin_slaves :: "device \<Rightarrow> ref list \<Rightarrow> hass \<Rightarrow> unit result \<times> hass" where
  "unjoin_slaves dev [] s = (Return (), s)"
| "unjoin_slaves dev (e # es) s =
     (if snapshot_group (heap s e) \<noteq> Some (sonos_group (heap s e)) then
        (case unjoin dev e s of
           (Raise x, s1) \<Rightarrow> (Raise x, s1)
         | (Return _, s1) \<Rightarrow> unjoin_slaves dev es s1)
      else unjoin_slaves dev es s)"

fun restore_topology ::
  "device \<Rightarrow> ref list \<Rightarrow> ref list list \<Rightarrow> hass \<Rightarrow> ref list list result \<times> hass" where
  "restore_topology dev [] groups s = (Return groups, s)"
| "restore_topology dev (e # es) groups s =
     (case snapshot_group (heap s e) of
        None \<Rightarrow> restore_topology dev es groups s
      | Some [] \<Rightarrow> restore_topology dev es groups s
      | Some (first # members) \<Rightarrow>
          if first = e then
            (case join dev e (first # members) s of
               (Raise x, s1) \<Rightarrow> (Raise x, s1)
             | (Return _, s1) \<Rightarrow>
                 restore_topology dev es (groups @ [first # members]) s1)
          else restore_topology dev es groups s)"

definition restore_groups ::
  "device \<Rightarrow> ref list \<Rightarrow> bool \<Rightarrow> hass \<Rightarrow> ref list list result \<times> hass" where
  "restore_groups dev es with_group s =
     (case pause_coordinators dev es s of
        (Raise x, s1) \<Rightarrow> (Raise x, s1)
      | (Return _, s1) \<Rightarrow>
          if with_group then
            (case unjoin_slaves dev (filter (\<lambda>e. \<not> is_coordinator s1 e) es) s1 of
               (Raise x, s2) \<Rightarrow> (Raise x, s2)
             | (Return _, s2) \<Rightarrow> restore_topology dev es [] s2)
          else (Return [], s1))"

fun restore_where :: "device \<Rightarrow> bool \<Rightarrow> ref list \<Rightarrow> hass \<Rightarrow> unit result \<times> hass" where
  "restore_where dev coordinators [] s = (Return (), s)"
| "restore_where dev coordinators (e # es) s =
     (if is_coordinator s e = coordinators then
        (case restore dev e s of
           (Raise x, s1) \<Rightarrow> (Raise x, s1)
         | (Return _, s1) \<Rightarrow> restore_where dev coordinators es s1)
      else restore_where dev coordinators es s)"

definition restore_players :: "device \<Rightarrow> ref list \<Rightarrow> hass \<Rightarrow> unit result \<times> hass" where
  "restore_players dev es s =
     (case restore_where dev False es s of
        (Raise x, s1) \<Rightarrow> (Raise x, s1)
      | (Return _, s1) \<Rightarrow> restore_where dev True es s1)"

text \<open>
  \<open>order\<close> gives the iteration order of the set of affected players (Python leaves it
  unspecified); the set is not changed after it is built, so every loop sees the same
  order.
\<close>

definition restore_multi ::
  "device \<Rightarrow> (ref set \<Rightarrow> ref list) \<Rightarrow> arrival list \<Rightarrow> ref list \<Rightarrow> bool \<Rightarrow> hass
     \<Rightarrow> unit result \<times> hass" where
  "restore_multi dev order arrivals ents with_group s =
     (let es = order (affected_players s ents with_group)
      in case restore_groups dev es with_group s of
           (Raise x, s1) \<Rightarrow> (Raise x, s1)
         | (Return groups, s1) \<Rightarrow>
             (case wait_for_groups (map Some groups) arrivals s1 of
                (Raise x, s2) \<Rightarrow> (Raise x, s2)
              | (Return _, s2) \<Rightarrow> restore_players dev es s2))"


section \<open>Vocabulary of the properties\<close>

text \<open>The recorded pair of \<^verbatim>\<open>_media_position\<close> and \<^verbatim>\<open>_media_position_updated_at\<close>.\<close>

definition position_pair :: "hass \<Rightarrow> ref \<Rightarrow> rat option \<times> rat option" where
  "position_pair s r = (media_position (heap s r), media_position_updated_at (heap s r))"

text \<open>
  The drift rule in the specification's words: the status just changed, or exactly one of
  raw and recorded position is missing, or the raw position is more than 1.5 seconds
  away from the recorded position plus the time elapsed since its timestamp.
\<close>

definition drifted :: "bool \<Rightarrow> rat option \<Rightarrow> rat option \<times> rat option \<Rightarrow> rat \<Rightarrow> bool" where
  "drifted status_changed raw recorded now =
     (status_changed \<or> (raw = None) \<noteq> (fst recorded = None) \<or>
      (case (raw, recorded) of
         (Some rel, Some pos, Some stamp) \<Rightarrow> \<bar>pos + (now - stamp) - rel\<bar> > 3 / 2
       | _ \<Rightarrow> False))"

text \<open>The registered entities that a list of uids resolves to.\<close>

definition resolved :: "hass \<Rightarrow> uid list \<Rightarrow> ref set" where
  "resolved s us = {m. \<exists>u \<in> set us. get_entity_from_soco_uid s u = Some m}"

section \<open>Example configurations\<close>

definition blank_entity :: entity where
  "blank_entity =
     \<lparr>unique_id = [], subscriptions = [], receives_events = False,
      player_volume = None, player_muted = None, shuffle = None, name = None, model = None,
      coordinator = None, sonos_group = [], status = None, media_duration = None,
      media_position = None, media_position_updated_at = None, media_image_url = None,
      media_artist = None, media_album_name = None, media_title = None, night_sound = None,
      speech_enhance = None, source_name = None, available = True, favorites = None,
      soco_snapshot = None, snapshot_group = None, zgs_cache = []\<rparr>"

text \<open>Two registered players, A (reference 0) leading the group of A and B (reference 1).\<close>

definition player_A :: entity where
  "player_A = blank_entity\<lparr>unique_id := ''RINCON_A'', sonos_group := [0, 1],
       status := Some ''PLAYING'', subscriptions := [10, 11, 12, 13],
       media_position := Some 10, media_position_updated_at := Some 100\<rparr>"

definition player_B :: entity where
  "player_B = blank_entity\<lparr>unique_id := ''RINCON_B'', coordinator := Some 0,
       sonos_group := [0, 1], subscriptions := [20, 21, 22, 23]\<rparr>"

definition two_players :: hass where
  "two_players =
     \<lparr>entities = [0, 1],
      heap = (\<lambda>r. if r = 0 then player_A else if r = 1 then player_B else blank_entity),
      trace = []\<rparr>"

text \<open>Players that answer every request, refuse every request, or cannot be reached.\<close>

definition healthy :: device where
  "healthy t c = None"

definition rejecting :: device where
  "rejecting t c = Some (SoCoUPnPException ''402'')"

definition unreachable :: device where
  "unreachable t c = Some RequestException"

definition idle_poll :: soco_poll where
  "idle_poll =
     \<lparr>current_transport_state = Return (Some ''STOPPED''), soco_shuffle = Return False,
      is_playing_tv = Return False, is_playing_line_in = Return False,
      current_track_info = Return \<lparr>ti_uri = ''x-file-cifs://nas/track.mp3'',
         ti_duration = Some ''0:03:00'', ti_artist = None, ti_album = None, ti_title = None,
         ti_album_art = None\<rparr>,
      position_rel_time = Return (Some ''0:00:20''), utcnow_elapsed = 105, utcnow_stamp = 105,
      media_info = Return (), radio_image_url = None, radio_artist = None, radio_title = None,
      radio_source = None, soco_volume = Return 20, soco_mute = Return False,
      soco_night_mode = Return None, soco_dialog_mode = Return None,
      speaker_info = Return (''Kitchen'', ''Sonos One''), sonos_favorites = Return [],
      subscribe = (\<lambda>service. Return 0)\<rparr>"

definition transitioning_poll :: soco_poll where
  "transitioning_poll = idle_poll\<lparr>current_transport_state := Return (Some ''TRANSITIONING'')\<rparr>"

definition sample_track :: track_info where
  "sample_track = \<lparr>ti_uri = ''x-file-cifs://nas/track.mp3'', ti_duration = Some ''0:03:00'',
     ti_artist = None, ti_album = None, ti_title = None, ti_album_art = None\<rparr>"

text \<open>
  What \<^verbatim>\<open>self._soco_snapshot.restore()\<close> ends with inside \<^verbatim>\<open>restore\<close>: \<open>None\<close> for
  success, otherwise the exception (the attribute error when there is no snapshot), and
  the outcomes the \<^verbatim>\<open>except\<close> clause of \<^verbatim>\<open>restore\<close> covers.
\<close>

definition snapshot_outcome :: "device \<Rightarrow> ref \<Rightarrow> hass \<Rightarrow> exn option" where
  "snapshot_outcome dev self s =
     (case soco_snapshot (heap s self) of
        None \<Rightarrow> Some AttributeError
      | Some snap \<Rightarrow> dev (trace s) (SnapshotRestore self snap))"

definition restore_catches :: "exn option \<Rightarrow> bool" where
  "restore_catches outcome =
     (case outcome of
        None \<Rightarrow> True
      | Some e \<Rightarrow> e = TypeError \<or> e = AttributeError \<or> is_soco_fault e)"

text \<open>The members of an entity's snapshot group (none when it holds no group).\<close>

definition snapshot_members :: "hass \<Rightarrow> ref \<Rightarrow> ref set" where
  "snapshot_members s e = (case snapshot_group (heap s e) of None \<Rightarrow> {} | Some g \<Rightarrow> set g)"

text \<open>The two players after a snapshot with groups.\<close>

definition player_A_snap :: entity where
  "player_A_snap = player_A\<lparr>soco_snapshot := Some 7, snapshot_group := Some [0, 1]\<rparr>"

definition player_B_snap :: entity where
  "player_B_snap = player_B\<lparr>soco_snapshot := Some 8, snapshot_group := Some [0, 1]\<rparr>"

definition snapshotted_players :: hass where
  "snapshotted_players =
     \<lparr>entities = [0, 1],
      heap = (\<lambda>r. if r = 0 then player_A_snap else if r = 1 then player_B_snap else blank_entity),
      trace = []\<rparr>"

text \<open>
  \<^verbatim>\<open>hass.add_job(coroutine)\<close> hands the coroutine to the event loop. When the loop runs
  a queued group event job, \<^verbatim>\<open>_async_handle_group_event\<close> runs for the queued entity and
  event, with what \<^verbatim>\<open>soco.group\<close> gives at that moment.
\<close>

definition run_job ::
  "effect \<Rightarrow> (uid \<times> uid list) option result \<Rightarrow> hass \<Rightarrow> bool result \<times> hass" where
  "run_job job soco_group s =
     (case job of
        Job_group_event r event \<Rightarrow> async_handle_group_event r event soco_group s
      | _ \<Rightarrow> (Return False, s))"

text \<open>The two players before any grouping, each its own group.\<close>

definition separate_players :: hass where
  "separate_players =
     \<lparr>entities = [0, 1],
      heap = (\<lambda>r. if r = 0 then player_A\<lparr>sonos_group := [0]\<rparr>
                  else if r = 1 then player_B\<lparr>coordinator := None, sonos_group := [1]\<rparr>
                  else blank_entity),
      trace = []\<rparr>"

section \<open>Basic facts\<close>

lemma heap_upd [simp]: "heap (upd r f s) = (heap s)(r := f (heap s r))"
  by (simp add: upd_def)

lemma trace_upd [simp]: "trace (upd r f s) = trace s"
  by (simp add: upd_def)

lemma entities_upd [simp]: "entities (upd r f s) = entities s"
  by (simp add: upd_def)

lemma heap_emit [simp]: "heap (emit x s) = heap s"
  by (simp add: emit_def)

lemma trace_emit [simp]: "trace (emit x s) = trace s @ [x]"
  by (simp add: emit_def)

lemma entities_emit [simp]: "entities (emit x s) = entities s"
  by (simp add: emit_def)

lemma fold_emit: "fold (\<lambda>x. emit (f x)) xs s = s\<lparr>trace := trace s @ map f xs\<rparr>"
  by (induction xs arbitrary: s) (simp_all add: emit_def)

section \<open>The error decorator\<close>

text \<open>
  C8 (as amended). When the wrapped body raises, \<^verbatim>\<open>soco_error\<close> swallows the exception
  exactly when it is a SoCo fault (\<^verbatim>\<open>SoCoUPnPException\<close> or another
  \<^verbatim>\<open>SoCoException\<close>): the wrapper then returns normally with no result, silently when
  the UPnP error code is in the supplied set (for \<^verbatim>\<open>UPNP_ERRORS_TO_IGNORE\<close> the codes
  701, 711 and 712), otherwise after one error record naming the operation. Every other
  exception leaves the wrapper unchanged and reaches the caller.
\<close>

theorem soco_error_outcome:
  assumes "funct s = (Raise e, s')"
  shows "soco_error errorcodes fname funct s =
           (if is_soco_fault e
            then (Return None,
                  if ignorable errorcodes e then s' else emit (Log_error fname e) s')
            else (Raise e, s')) \<and>
         ignorable (Some UPNP_ERRORS_TO_IGNORE) (SoCoUPnPException code) =
           (code \<in> {''701'', ''711'', ''712''}) \<and>
         \<not> ignorable None e"
  using assms
  by (cases e)
     (auto simp: soco_error_def is_soco_fault_def ignorable_def UPNP_ERRORS_TO_IGNORE_def
           split: option.splits)

theorem soco_error_outcome_witness:
  "unjoin_body rejecting 1 two_players =
     (Raise (SoCoUPnPException ''402''), emit (Cmd (Unjoin 1)) two_players) \<and>
   soco_error None ''unjoin'' (unjoin_body rejecting 1) two_players =
     (Return None,
      emit (Log_error ''unjoin'' (SoCoUPnPException ''402'')) (emit (Cmd (Unjoin 1)) two_players))"
proof -
  have h: "unjoin_body rejecting 1 two_players =
             (Raise (SoCoUPnPException ''402''), emit (Cmd (Unjoin 1)) two_players)"
    by (simp add: unjoin_body_def issue_def rejecting_def)
  show ?thesis
    using soco_error_outcome [where funct = "unjoin_body rejecting 1" and s = two_players
        and errorcodes = None and fname = "''unjoin''", OF h] h
    by (simp add: is_soco_fault_def ignorable_def)
qed

text \<open>
  The claim as stated (no exception of the body ever reaches the caller) fails: a player
  that cannot be reached makes \<^verbatim>\<open>media_pause\<close> raise the request exception.
\<close>

theorem soco_error_propagates_counterexample:
  "fst (media_pause unreachable 0 two_players) = Raise RequestException"
  by (simp add: media_pause_def soco_error_def soco_coordinator_def issue_def unreachable_def
      two_players_def player_A_def blank_entity_def)

section \<open>Playback state reconciler\<close>

text \<open>
  C7. When the polled transport state is \<^verbatim>\<open>TRANSITIONING\<close>, \<^verbatim>\<open>update_media\<close> returns
  with the whole state as it was: no entity field is written (status, shuffle, duration,
  position, timestamp, artwork, artist, album, title, source) and nothing is added to the
  trace, so no state refresh is scheduled.
\<close>

theorem update_media_ignores_transitioning:
  assumes "current_transport_state poll = Return (Some ''TRANSITIONING'')"
  shows "update_media self poll s = (Return (), s)"
  using assms by (simp add: update_media_def)

theorem update_media_ignores_transitioning_witness:
  "current_transport_state transitioning_poll = Return (Some ''TRANSITIONING'') \<and>
   update_media 0 transitioning_poll two_players = (Return (), two_players)"
proof -
  have h: "current_transport_state transitioning_poll = Return (Some ''TRANSITIONING'')"
    by (simp add: transitioning_poll_def)
  show ?thesis
    using update_media_ignores_transitioning [OF h, of 0 two_players] h by simp
qed

lemma position_needs_update_drifted:
  assumes "position \<noteq> None \<longrightarrow> updated_at \<noteq> None"
  shows "position_needs_update flag rel_time position updated_at now =
           Return (drifted flag rel_time (position, updated_at) now)"
  using assms
  by (cases rel_time; cases position; cases updated_at)
     (simp_all add: position_needs_update_def drifted_def Let_def)

lemma update_media_position_pair:
  assumes "media_position (heap s self) \<noteq> None \<longrightarrow>
           media_position_updated_at (heap s self) \<noteq> None"
  shows "update_media_position self flag rel_time now_elapsed now_stamp s =
     (Return (),
      if drifted flag rel_time (position_pair s self) now_elapsed
      then upd self (\<lambda>e. e\<lparr>media_position := rel_time,
                               media_position_updated_at := Some now_stamp\<rparr>) s
      else s)"
  unfolding update_media_position_def position_needs_update_drifted [OF assms] position_pair_def
  by simp

lemma update_media_music_pair:
  assumes "timespan_secs (ti_duration info) = Return d"
    and "position_rel_time poll = Return raw"
    and "timespan_secs raw = Return rel"
    and "media_position (heap s self) \<noteq> None \<longrightarrow>
         media_position_updated_at (heap s self) \<noteq> None"
  shows "fst (update_media_music self flag info poll s) = Return () \<and>
         position_pair (snd (update_media_music self flag info poll s)) self =
           (if drifted flag (map_option of_int rel) (position_pair s self) (utcnow_elapsed poll)
            then (map_option of_int rel, Some (utcnow_stamp poll))
            else position_pair s self)"
proof -
  let ?s1 = "upd self (\<lambda>e. e\<lparr>media_duration := d\<rparr>) s"
  have inv: "media_position (heap ?s1 self) \<noteq> None \<longrightarrow>
             media_position_updated_at (heap ?s1 self) \<noteq> None"
    using assms(4) by simp
  have pp: "position_pair ?s1 self = position_pair s self"
    by (simp add: position_pair_def)
  show ?thesis
    unfolding update_media_music_def Let_def
    by (simp add: assms(1,2,3) update_media_position_pair [OF inv] pp)
       (simp add: position_pair_def)
qed


lemma timespan_secs_3min: "timespan_secs (Some ''0:03:00'') = Return (Some 180)"
  by code_simp

lemma timespan_secs_20s: "timespan_secs (Some ''0:00:20'') = Return (Some 20)"
  by code_simp

text \<open>
  C3. For a poll of a music track whose duration and \<^verbatim>\<open>RelTime\<close> parse, and a recorded
  position that has a timestamp: \<^verbatim>\<open>update_media_music\<close> overwrites the recorded pair
  with the raw position and the clock reading taken at the overwrite exactly when the rule
  \<open>drifted\<close> holds (flag set, raw and recorded position not both present or both
  missing, or more than 1.5 seconds between the raw position and the recorded position
  plus the time elapsed), and leaves the pair as it was otherwise; \<^verbatim>\<open>update_media\<close>
  passes as flag whether the transport status changed. Recorded 10 s at \<open>t0\<close> and raw
  20 s read at \<open>t0 + 5\<close> gives the pair (20, \<open>t0 + 5\<close>); recorded 10 s at \<open>t0\<close>
  and raw 11.2 s read at \<open>t0 + 1\<close> leaves the state unchanged.
\<close>

theorem position_drift_correction:
  assumes "timespan_secs (ti_duration info) = Return d"
    and "position_rel_time poll = Return raw"
    and "timespan_secs raw = Return rel"
    and "media_position (heap s self) \<noteq> None \<longrightarrow>
         media_position_updated_at (heap s self) \<noteq> None"
  shows "position_pair (snd (update_media_music self flag info poll s)) self =
           (if drifted flag (map_option of_int rel) (position_pair s self) (utcnow_elapsed poll)
            then (map_option of_int rel, Some (utcnow_stamp poll))
            else position_pair s self) \<and>
         (is_playing_tv poll = Return False \<and> is_playing_line_in poll = Return False \<and>
          current_track_info poll = Return info \<and> \<not> is_radio_uri (ti_uri info) \<longrightarrow>
            update_media_kind self new_status poll s =
              update_media_music self (new_status \<noteq> status (heap s self)) info poll s) \<and>
         position_needs_update False (Some 20) (Some 10) (Some t0) (t0 + 5) = Return True \<and>
         position_needs_update False (Some (56 / 5)) (Some 10) (Some t0) (t0 + 1) = Return False \<and>
         (position_pair s self = (Some 10, Some t0) \<longrightarrow>
            position_pair (snd (update_media_position self False (Some 20) (t0 + 5) (t0 + 5) s)) self
              = (Some 20, Some (t0 + 5)) \<and>
            update_media_position self False (Some (56 / 5)) (t0 + 1) (t0 + 1) s = (Return (), s))"
proof -
  have a: "position_needs_update False (Some 20) (Some 10) (Some t0) (t0 + 5) = Return True"
    by (simp add: position_needs_update_def Let_def)
  have b: "position_needs_update False (Some (56 / 5)) (Some 10) (Some t0) (t0 + 1) = Return False"
    by (simp add: position_needs_update_def Let_def)
  have c: "position_pair (snd (update_media_position self False (Some 20) (t0 + 5) (t0 + 5) s)) self
              = (Some 20, Some (t0 + 5)) \<and>
           update_media_position self False (Some (56 / 5)) (t0 + 1) (t0 + 1) s = (Return (), s)"
    if "position_pair s self = (Some 10, Some t0)"
    using that a b by (simp add: update_media_position_def position_pair_def)
  have k: "update_media_kind self new_status poll s =
              update_media_music self (new_status \<noteq> status (heap s self)) info poll s"
    if "is_playing_tv poll = Return False" "is_playing_line_in poll = Return False"
       "current_track_info poll = Return info" "\<not> is_radio_uri (ti_uri info)"
    using that by (simp add: update_media_kind_def)
  show ?thesis
    using update_media_music_pair [OF assms] a b c k by blast
qed

theorem position_drift_correction_witness:
  "timespan_secs (ti_duration sample_track) = Return (Some 180) \<and>
   position_rel_time idle_poll = Return (Some ''0:00:20'') \<and>
   timespan_secs (Some ''0:00:20'') = Return (Some 20) \<and>
   position_pair two_players 0 = (Some 10, Some 100) \<and>
   position_pair (snd (update_media_music 0 False sample_track idle_poll two_players)) 0 =
     (Some 20, Some 105)"
proof -
  have h1: "timespan_secs (ti_duration sample_track) = Return (Some 180)"
    by (simp add: sample_track_def timespan_secs_3min)
  have h2: "position_rel_time idle_poll = Return (Some ''0:00:20'')"
    by (simp add: idle_poll_def)
  have h4: "media_position (heap two_players 0) \<noteq> None \<longrightarrow>
            media_position_updated_at (heap two_players 0) \<noteq> None"
    by (simp add: two_players_def player_A_def)
  have p: "position_pair two_players 0 = (Some 10, Some 100)"
    by (simp add: position_pair_def two_players_def player_A_def blank_entity_def)
  have d: "drifted False (Some 20) (Some 10, Some 100) 105"
    by (simp add: drifted_def)
  have e: "utcnow_elapsed idle_poll = 105" "utcnow_stamp idle_poll = 105"
    by (simp_all add: idle_poll_def)
  show ?thesis
    using position_drift_correction [OF h1 h2 timespan_secs_20s h4, of False] h1 h2 timespan_secs_20s h4 p d e
    by simp
qed

section \<open>Unreachable players\<close>

text \<open>
  C9 (as amended). When a player recorded as available fails the reachability probe,
  \<^verbatim>\<open>update\<close> returns normally, queues the release of every event subscription and
  empties the subscription list, clears volume, mute, position, timestamp, duration,
  artwork, artist, album, title and source, sets the status to \<^verbatim>\<open>OFF\<close> and the
  coordinator pointer to \<^verbatim>\<open>None\<close>, and marks the player unavailable. Its membership
  list keeps the value it had, and no other entity is touched.
\<close>

theorem update_unreachable:
  assumes "available (heap s self)"
  shows "fst (update self False poll s) = Return () \<and>
         trace (snd (update self False poll s)) =
           trace s @ map Job_unsubscribe (subscriptions (heap s self)) \<and>
         (let e = heap (snd (update self False poll s)) self
          in subscriptions e = [] \<and> player_volume e = None \<and> player_muted e = None \<and>
             media_position e = None \<and> media_position_updated_at e = None \<and>
             media_duration e = None \<and> media_image_url e = None \<and> media_artist e = None \<and>
             media_album_name e = None \<and> media_title e = None \<and> source_name e = None \<and>
             status e = Some ''OFF'' \<and> coordinator e = None \<and> \<not> available e \<and>
             sonos_group e = sonos_group (heap s self)) \<and>
         (\<forall>r. r \<noteq> self \<longrightarrow> heap (snd (update self False poll s)) r = heap s r)"
  using assms by (simp add: update_def Let_def fold_emit)

text \<open>
  The claim as stated has the membership list become the one-member group: follower B of
  the group of A and B still lists both after the reset.
\<close>

theorem update_unreachable_group_counterexample: "sonos_group (heap (snd (update 1 False idle_poll two_players)) 1) \<noteq> [1]"
  by (simp add: update_def Let_def fold_emit two_players_def player_B_def blank_entity_def)

section \<open>Topology store\<close>

lemma get_entity_cong:
  assumes "entities s' = entities s" and "\<And>r. unique_id (heap s' r) = unique_id (heap s r)"
  shows "get_entity_from_soco_uid s' u = get_entity_from_soco_uid s u"
  by (simp add: get_entity_from_soco_uid_def assms)

lemma get_entity_SomeD:
  assumes "get_entity_from_soco_uid s u = Some r"
  shows "unique_id (heap s r) = u" and "r \<in> set (entities s)"
  using assms by (auto simp: get_entity_from_soco_uid_def find_Some_iff)


lemma regroup_slave_registry:
  "entities (regroup_slave self g u s) = entities s"
  "unique_id (heap (regroup_slave self g u s) r) = unique_id (heap s r)"
  by (simp_all add: regroup_slave_def split: option.splits)

lemma regroup_slave_lookup:
  "get_entity_from_soco_uid (regroup_slave self g u s) = get_entity_from_soco_uid s"
  by (rule ext) (rule get_entity_cong; simp add: regroup_slave_registry)

lemma resolved_regroup_slave: "resolved (regroup_slave self g u s) us = resolved s us"
  by (simp add: resolved_def regroup_slave_lookup)

lemma resolved_Cons:
  "resolved s (u # us) = (case get_entity_from_soco_uid s u of None \<Rightarrow> {} | Some m \<Rightarrow> {m}) \<union> resolved s us"
  by (auto simp: resolved_def split: option.splits)

lemma regroup_slave_heap:
  "heap (regroup_slave self g u s) =
     (case get_entity_from_soco_uid s u of
        None \<Rightarrow> heap s
      | Some m \<Rightarrow> (heap s)(m := (heap s m)\<lparr>coordinator := Some self, sonos_group := g\<rparr>))"
  by (simp add: regroup_slave_def split: option.splits)

lemma fold_regroup_slave_heap:
  "heap (fold (regroup_slave self g) us s) r =
     (if r \<in> resolved s us then (heap s r)\<lparr>coordinator := Some self, sonos_group := g\<rparr>
      else heap s r)"
proof (induction us arbitrary: s)
  case Nil
  show ?case by (simp add: resolved_def)
next
  case (Cons u us)
  have "heap (fold (regroup_slave self g) (u # us) s) r =
        heap (fold (regroup_slave self g) us (regroup_slave self g u s)) r"
    by simp
  also have "\<dots> = (if r \<in> resolved s us
                    then (heap (regroup_slave self g u s) r)\<lparr>coordinator := Some self, sonos_group := g\<rparr>
                    else heap (regroup_slave self g u s) r)"
    by (simp add: Cons.IH resolved_regroup_slave)
  also have "\<dots> = (if r \<in> resolved s (u # us)
                    then (heap s r)\<lparr>coordinator := Some self, sonos_group := g\<rparr>
                    else heap s r)"
    by (cases "get_entity_from_soco_uid s u") (auto simp: regroup_slave_heap resolved_Cons)
  finally show ?case .
qed

lemma fold_regroup_slave_entities:
  "entities (fold (regroup_slave self g) us s) = entities s"
  by (induction us arbitrary: s) (simp_all add: regroup_slave_registry)


lemma resolved_cong:
  assumes "entities s' = entities s" and "\<And>r. unique_id (heap s' r) = unique_id (heap s r)"
  shows "resolved s' us = resolved s us"
  using get_entity_cong [OF assms] by (simp add: resolved_def)

lemma async_regroup_heap:
  "heap (async_regroup self grp s) r =
     (if r \<in> resolved s (tl grp)
      then (heap s r)\<lparr>coordinator := Some self,
                      sonos_group := List.map_filter (get_entity_from_soco_uid s) grp\<rparr>
      else if r = self
      then (heap s r)\<lparr>coordinator := None,
                      sonos_group := List.map_filter (get_entity_from_soco_uid s) grp\<rparr>
      else heap s r)"
proof -
  let ?g = "List.map_filter (get_entity_from_soco_uid s) grp"
  let ?s1 = "emit (Schedule_update self)
               (upd self (\<lambda>e. e\<lparr>coordinator := None, sonos_group := ?g\<rparr>) s)"
  have res: "resolved ?s1 (tl grp) = resolved s (tl grp)"
    by (rule resolved_cong) simp_all
  show ?thesis
    by (simp add: async_regroup_def Let_def fold_regroup_slave_heap res)
qed

lemma async_regroup_lookup:
  "get_entity_from_soco_uid (async_regroup self grp s) u = get_entity_from_soco_uid s u"
  by (rule get_entity_cong)
     (simp_all add: async_regroup_def Let_def fold_regroup_slave_entities async_regroup_heap
        fold_regroup_slave_heap)

text \<open>
  C1 (as amended). Let \<^verbatim>\<open>_async_regroup\<close> be applied by an entity to a group list that
  starts with the entity's own uid and does not repeat that uid further on. Afterwards
  the entity's coordinator pointer is \<^verbatim>\<open>None\<close>, the coordinator pointer of every
  entity that a later uid resolves to is the entity, and all of them hold the same
  membership list, namely the entities the uids resolve to, in the order of the list;
  it starts with the entity itself when its own uid resolves to it.
\<close>

theorem async_regroup_topology:
  assumes "grp \<noteq> []"
    and "unique_id (heap s self) = hd grp"
    and "hd grp \<notin> set (tl grp)"
  shows "(let s' = async_regroup self grp s;
              members = List.map_filter (get_entity_from_soco_uid s) grp
          in coordinator (heap s' self) = None \<and>
             sonos_group (heap s' self) = members \<and>
             (\<forall>u \<in> set (tl grp). \<forall>m. get_entity_from_soco_uid s' u = Some m \<longrightarrow>
                coordinator (heap s' m) = Some self \<and> sonos_group (heap s' m) = members) \<and>
             (get_entity_from_soco_uid s' (hd grp) = Some self \<longrightarrow>
                members = self # List.map_filter (get_entity_from_soco_uid s) (tl grp)))"
proof -
  have not_slave: "self \<notin> resolved s (tl grp)"
  proof
    assume "self \<in> resolved s (tl grp)"
    then obtain u where "u \<in> set (tl grp)" and "get_entity_from_soco_uid s u = Some self"
      by (auto simp: resolved_def)
    then have "unique_id (heap s self) \<in> set (tl grp)"
      using get_entity_SomeD(1) by blast
    with assms(2,3) show False by simp
  qed
  have slaves: "m \<in> resolved s (tl grp)"
    if "u \<in> set (tl grp)" and "get_entity_from_soco_uid s u = Some m" for u m
    using that by (auto simp: resolved_def)
  have head: "List.map_filter (get_entity_from_soco_uid s) grp =
              self # List.map_filter (get_entity_from_soco_uid s) (tl grp)"
    if "get_entity_from_soco_uid s (hd grp) = Some self"
    using that assms(1) by (cases grp) (simp_all add: List.map_filter_simps)
  show ?thesis
    unfolding Let_def
    by (auto simp: async_regroup_heap async_regroup_lookup not_slave slaves head)
qed

text \<open>
  The claim as stated covers every group list. A topology event that names the handling
  player twice makes the second loop treat it as its own follower: its coordinator
  pointer ends up pointing at itself.
\<close>

theorem async_regroup_repeated_head_counterexample:
  "coordinator (heap (snd (async_handle_group_event 0
      (Some (Event_with_group (Some ''RINCON_A,RINCON_A''))) (Return None) two_players)) 0) = Some 0"
  by code_simp

lemma split_on_not_Nil: "split_on c xs \<noteq> []"
  by (induction xs) (auto split: list.splits)

lemma extract_not_Nil:
  assumes "async_extract_group self event soco_group s = Return grp"
  shows "grp \<noteq> []"
  using assms split_on_not_Nil
  by (auto simp: async_extract_group_def get_soco_group_def
           split: option.splits topology_event.splits result.splits if_splits prod.splits)

lemma two_players_simps:
  "heap two_players 0 = player_A"
  "heap two_players (Suc 0) = player_B"
  "entities two_players = [0, Suc 0]"
  "trace two_players = []"
  by (simp_all add: two_players_def)

theorem update_unreachable_witness:
  "available (heap two_players 1) \<and>
   fst (update 1 False idle_poll two_players) = Return () \<and>
   trace (snd (update 1 False idle_poll two_players)) = map Job_unsubscribe [20, 21, 22, 23] \<and>
   status (heap (snd (update 1 False idle_poll two_players)) 1) = Some ''OFF'' \<and>
   coordinator (heap (snd (update 1 False idle_poll two_players)) 1) = None \<and>
   sonos_group (heap (snd (update 1 False idle_poll two_players)) 1) = [0, 1]"
proof -
  have h: "available (heap two_players 1)"
    by (simp add: two_players_def player_B_def blank_entity_def)
  show ?thesis
    using update_unreachable [OF h, of idle_poll] h
    by (simp add: Let_def two_players_simps player_B_def blank_entity_def)
qed

theorem async_regroup_topology_witness:
  "[''RINCON_A'', ''RINCON_B''] \<noteq> [] \<and>
   unique_id (heap two_players 0) = hd [''RINCON_A'', ''RINCON_B''] \<and>
   hd [''RINCON_A'', ''RINCON_B''] \<notin> set (tl [''RINCON_A'', ''RINCON_B'']) \<and>
   coordinator (heap (async_regroup 0 [''RINCON_A'', ''RINCON_B''] two_players) 0) = None \<and>
   coordinator (heap (async_regroup 0 [''RINCON_A'', ''RINCON_B''] two_players) 1) = Some 0 \<and>
   sonos_group (heap (async_regroup 0 [''RINCON_A'', ''RINCON_B''] two_players) 0) = [0, 1] \<and>
   sonos_group (heap (async_regroup 0 [''RINCON_A'', ''RINCON_B''] two_players) 1) = [0, 1]"
proof -
  have h2: "unique_id (heap two_players 0) = hd [''RINCON_A'', ''RINCON_B'']"
    by (simp add: two_players_def player_A_def blank_entity_def)
  have h3: "hd [''RINCON_A'', ''RINCON_B''] \<notin> set (tl [''RINCON_A'', ''RINCON_B''])"
    by simp
  have la: "get_entity_from_soco_uid two_players ''RINCON_A'' = Some 0"
    by code_simp
  have lb: "get_entity_from_soco_uid two_players ''RINCON_B'' = Some 1"
    by code_simp
  show ?thesis
    using async_regroup_topology [OF _ h2 h3] h2 h3
    by (simp add: Let_def async_regroup_lookup la lb List.map_filter_simps)
qed

section \<open>Snapshots\<close>


lemma restore_body_caught:
  assumes "restore_catches (snapshot_outcome dev self s)"
  shows "restore_body dev self s =
     (Return (),
      clear_snapshot self
        (case soco_snapshot (heap s self) of
           None \<Rightarrow> emit (Log_restore_warning self AttributeError) s
         | Some snap \<Rightarrow>
             (case dev (trace s) (SnapshotRestore self snap) of
                None \<Rightarrow> emit (Cmd (SnapshotRestore self snap)) s
              | Some e \<Rightarrow> emit (Log_restore_warning self e)
                            (emit (Cmd (SnapshotRestore self snap)) s))))"
  using assms
  by (auto simp: restore_body_def snapshot_outcome_def restore_catches_def issue_def
           split: option.splits)

lemma affected_players_eq:
  "affected_players s ents with_group =
     {e \<in> set ents. soco_snapshot (heap s e) \<noteq> None} \<union>
     (if with_group
      then (\<Union>e \<in> {e \<in> set ents. soco_snapshot (heap s e) \<noteq> None}. snapshot_members s e)
      else {})"
proof -
  have m: "set (case snapshot_group (heap s e) of None \<Rightarrow> [] | Some g \<Rightarrow> g) = snapshot_members s e" for e
    by (simp add: snapshot_members_def split: option.splits)
  show ?thesis
    unfolding affected_players_def Let_def set_concat set_map image_image m
    by auto
qed

lemma affected_players_iff:
  "r \<in> affected_players s ents with_group \<longleftrightarrow>
     (r \<in> set ents \<and> soco_snapshot (heap s r) \<noteq> None) \<or>
     (with_group \<and> (\<exists>e \<in> set ents. soco_snapshot (heap s e) \<noteq> None \<and> r \<in> snapshot_members s e))"
  unfolding affected_players_eq by auto

text \<open>
  C10 (as amended). Whenever applying the snapshot succeeds or fails with an exception
  \<^verbatim>\<open>restore\<close> catches (\<^verbatim>\<open>TypeError\<close>, \<^verbatim>\<open>AttributeError\<close> or a SoCo fault),
  \<^verbatim>\<open>restore\<close> returns normally, logs the failure, and leaves the entity with neither a
  snapshot nor a snapshot group, touching no other entity. A later \<^verbatim>\<open>restore_multi\<close>
  then has the entity among its affected players exactly when \<^verbatim>\<open>with_group\<close> is set
  and a requested entity that still holds a snapshot lists it in its snapshot group.
\<close>

theorem restore_consumes_snapshot:
  assumes "restore_catches (snapshot_outcome dev self s)"
  shows "(let r = restore dev self s; s' = snd r
          in fst r = Return (Some ()) \<and>
             soco_snapshot (heap s' self) = None \<and>
             snapshot_group (heap s' self) = None \<and>
             (\<forall>e. snapshot_outcome dev self s = Some e \<longrightarrow>
                  last (trace s') = Log_restore_warning self e) \<and>
             (\<forall>x. x \<noteq> self \<longrightarrow> heap s' x = heap s x) \<and>
             (\<forall>ents with_group.
                self \<in> affected_players s' ents with_group \<longleftrightarrow>
                  with_group \<and>
                  (\<exists>e \<in> set ents. soco_snapshot (heap s' e) \<noteq> None \<and>
                                  self \<in> snapshot_members s' e)))"
proof -
  have "soco_snapshot (heap (snd (restore dev self s)) self) = None"
    by (simp add: restore_def soco_error_def restore_body_caught [OF assms] clear_snapshot_def)
  then show ?thesis
    unfolding Let_def affected_players_iff
    by (auto simp: restore_def soco_error_def restore_body_caught [OF assms] clear_snapshot_def
          snapshot_outcome_def split: option.splits)
qed

lemma snapshotted_players_simps:
  "heap snapshotted_players 0 = player_A_snap"
  "heap snapshotted_players (Suc 0) = player_B_snap"
  "entities snapshotted_players = [0, Suc 0]"
  "trace snapshotted_players = []"
  by (simp_all add: snapshotted_players_def)

theorem restore_consumes_snapshot_witness:
  "restore_catches (snapshot_outcome rejecting 1 snapshotted_players) \<and>
   fst (restore rejecting 1 snapshotted_players) = Return (Some ()) \<and>
   soco_snapshot (heap (snd (restore rejecting 1 snapshotted_players)) 1) = None \<and>
   snapshot_group (heap (snd (restore rejecting 1 snapshotted_players)) 1) = None \<and>
   last (trace (snd (restore rejecting 1 snapshotted_players))) =
     Log_restore_warning 1 (SoCoUPnPException ''402'')"
proof -
  have o: "snapshot_outcome rejecting 1 snapshotted_players = Some (SoCoUPnPException ''402'')"
    by (simp add: snapshot_outcome_def snapshotted_players_simps player_B_snap_def rejecting_def)
  have h: "restore_catches (snapshot_outcome rejecting 1 snapshotted_players)"
    using o by (simp add: restore_catches_def is_soco_fault_def)
  show ?thesis
    using restore_consumes_snapshot [OF h] h o
    by (simp add: Let_def)
qed

text \<open>
  The claim as stated fails twice. A request exception from an unreachable player is not
  caught by \<^verbatim>\<open>restore\<close>, which then ends before clearing the snapshot; and player B,
  restored and cleared, is again among the affected players of a restore with groups,
  because A's snapshot group names it.
\<close>

theorem restore_keeps_snapshot_counterexample:
  "fst (restore unreachable 0 snapshotted_players) = Raise RequestException \<and>
   soco_snapshot (heap (snd (restore unreachable 0 snapshotted_players)) 0) = Some 7 \<and>
   fst (restore healthy 1 snapshotted_players) = Return (Some ()) \<and>
   1 \<in> affected_players (snd (restore healthy 1 snapshotted_players)) [0, 1] True"
  by (simp add: restore_def soco_error_def restore_body_def issue_def unreachable_def healthy_def
        is_soco_fault_def clear_snapshot_def affected_players_def Let_def
        snapshotted_players_simps player_A_snap_def player_B_snap_def)

lemma fold_regroup_slave_trace:
  "trace (fold (regroup_slave self g) us s) =
     trace s @ map Schedule_update (List.map_filter (get_entity_from_soco_uid s) us)"
proof (induction us arbitrary: s)
  case Nil
  show ?case by simp
next
  case (Cons u us)
  show ?case
    by (cases "get_entity_from_soco_uid s u")
       (simp_all add: Cons.IH regroup_slave_lookup, simp_all add: regroup_slave_def)
qed

lemma async_regroup_trace:
  "trace (async_regroup self grp s) =
     trace s @ Schedule_update self #
       map Schedule_update (List.map_filter (get_entity_from_soco_uid s) (tl grp))"
proof -
  let ?g = "List.map_filter (get_entity_from_soco_uid s) grp"
  let ?s1 = "emit (Schedule_update self)
               (upd self (\<lambda>e. e\<lparr>coordinator := None, sonos_group := ?g\<rparr>) s)"
  have "get_entity_from_soco_uid ?s1 = get_entity_from_soco_uid s"
    by (rule ext) (rule get_entity_cong; simp)
  then show ?thesis
    by (simp add: async_regroup_def Let_def fold_regroup_slave_trace)
qed

lemma async_regroup_entities: "entities (async_regroup self grp s) = entities s"
  by (simp add: async_regroup_def Let_def fold_regroup_slave_entities)

text \<open>
  C2. \<^verbatim>\<open>update_groups\<close> marks the entity as receiving events and, unless the event lacks
  the group attribute, queues one job; running the job is running the handler. Whatever
  group list the handler resolves (it is never empty): when the handling entity's uid is
  its first entry, the topology is rewritten (the handler's coordinator pointer becomes
  \<^verbatim>\<open>None\<close>, the pointer of every entity a later uid resolves to becomes the handler,
  all of them get the resolved membership list, each is scheduled for a refresh) and the
  waiters are notified, nothing else changing; when it is not the first entry, the handler
  leaves the whole state as it was, so no coordinator pointer and no membership list
  changes and nobody is notified.
\<close>

theorem group_event_applied_iff_first:
  assumes "async_extract_group self event soco_group s = Return grp"
  shows "grp \<noteq> [] \<and>
         (unique_id (heap s self) = hd grp \<longrightarrow>
            (let r = async_handle_group_event self event soco_group s;
                 members = List.map_filter (get_entity_from_soco_uid s) grp
             in fst r = Return True \<and>
                entities (snd r) = entities s \<and>
                (\<forall>x. heap (snd r) x =
                   (if x \<in> resolved s (tl grp)
                    then (heap s x)\<lparr>coordinator := Some self, sonos_group := members\<rparr>
                    else if x = self
                    then (heap s x)\<lparr>coordinator := None, sonos_group := members\<rparr>
                    else heap s x)) \<and>
                trace (snd r) =
                  trace s @ Schedule_update self #
                    map Schedule_update (List.map_filter (get_entity_from_soco_uid s) (tl grp)) @
                    [Notify_all])) \<and>
         (unique_id (heap s self) \<noteq> hd grp \<longrightarrow>
            async_handle_group_event self event soco_group s = (Return False, s)) \<and>
         run_job (Job_group_event self event) soco_group s =
           async_handle_group_event self event soco_group s \<and>
         update_groups self event s =
           (let s1 = (if event = None then s
                      else upd self (\<lambda>e. e\<lparr>receives_events := True\<rparr>) s)
            in if event = Some Event_without_group then s1
               else emit (Job_group_event self event) s1)"
proof -
  have ne: "grp \<noteq> []" using assms by (rule extract_not_Nil)
  then obtain first rest where g: "grp = first # rest" by (cases grp) auto
  have applied: "async_handle_group_event self event soco_group s =
                   (Return True, emit Notify_all (async_regroup self grp s))"
    if "unique_id (heap s self) = hd grp"
    using that by (simp add: async_handle_group_event_def assms g)
  have skipped: "async_handle_group_event self event soco_group s = (Return False, s)"
    if "unique_id (heap s self) \<noteq> hd grp"
    using that by (simp add: async_handle_group_event_def assms g)
  have job: "run_job (Job_group_event self event) soco_group s =
               async_handle_group_event self event soco_group s"
    by (simp add: run_job_def)
  have ug: "update_groups self event s =
           (let s1 = (if event = None then s
                      else upd self (\<lambda>e. e\<lparr>receives_events := True\<rparr>) s)
            in if event = Some Event_without_group then s1
               else emit (Job_group_event self event) s1)"
    by (simp add: update_groups_def Let_def)
  show ?thesis
    unfolding Let_def
    using ne skipped job ug
    by (auto simp: applied async_regroup_heap async_regroup_trace async_regroup_entities Let_def)
qed

lemma separate_players_simps:
  "heap separate_players 0 = player_A\<lparr>sonos_group := [0]\<rparr>"
  "heap separate_players (Suc 0) = player_B\<lparr>coordinator := None, sonos_group := [Suc 0]\<rparr>"
  "entities separate_players = [0, Suc 0]"
  "trace separate_players = []"
  by (simp_all add: separate_players_def)

theorem group_event_applied_iff_first_witness:
  "async_extract_group 0 (Some (Event_with_group (Some ''RINCON_A,RINCON_B''))) (Return None)
       separate_players = Return [''RINCON_A'', ''RINCON_B''] \<and>
   fst (async_handle_group_event 0 (Some (Event_with_group (Some ''RINCON_A,RINCON_B'')))
       (Return None) separate_players) = Return True \<and>
   coordinator (heap (snd (async_handle_group_event 0
       (Some (Event_with_group (Some ''RINCON_A,RINCON_B''))) (Return None) separate_players)) 1)
     = Some 0 \<and>
   sonos_group (heap (snd (async_handle_group_event 0
       (Some (Event_with_group (Some ''RINCON_A,RINCON_B''))) (Return None) separate_players)) 1)
     = [0, 1] \<and>
   sonos_group (heap (snd (async_handle_group_event 0
       (Some (Event_with_group (Some ''RINCON_A,RINCON_B''))) (Return None) separate_players)) 0)
     = [0, 1] \<and>
   trace (snd (async_handle_group_event 0
       (Some (Event_with_group (Some ''RINCON_A,RINCON_B''))) (Return None) separate_players))
     = [Schedule_update 0, Schedule_update 1, Notify_all] \<and>
   async_extract_group 1 (Some (Event_with_group (Some ''RINCON_A,RINCON_B''))) (Return None)
       separate_players = Return [''RINCON_A'', ''RINCON_B''] \<and>
   async_handle_group_event 1 (Some (Event_with_group (Some ''RINCON_A,RINCON_B'')))
       (Return None) separate_players = (Return False, separate_players)"
proof -
  have h: "async_extract_group 0 (Some (Event_with_group (Some ''RINCON_A,RINCON_B'')))
             (Return None) separate_players = Return [''RINCON_A'', ''RINCON_B'']"
    by code_simp
  have k: "async_extract_group 1 (Some (Event_with_group (Some ''RINCON_A,RINCON_B'')))
             (Return None) separate_players = Return [''RINCON_A'', ''RINCON_B'']"
    by code_simp
  have la: "get_entity_from_soco_uid separate_players ''RINCON_A'' = Some 0"
    by code_simp
  have lb: "get_entity_from_soco_uid separate_players ''RINCON_B'' = Some 1"
    by code_simp
  have res: "resolved separate_players [''RINCON_B''] = {1}"
    using lb by (auto simp: resolved_def)
  show ?thesis
    using group_event_applied_iff_first [OF h] group_event_applied_iff_first [OF k] h k la lb res
    by (simp add: Let_def separate_players_simps player_A_def player_B_def blank_entity_def)
qed

end
